theory Spec2Isabelle
  imports
    Complex_Main
    "HOL-Library.Multiset"
    "HOL-Library.Char_ord"
    "HOL-Library.List_Lexorder"
    "HOL-Library.Product_Lexorder"
begin

section \<open>Data model: the loaded frame\<close>

text \<open>
  \<^verbatim>\<open>app.py\<close> is one script over a pandas frame. \<^verbatim>\<open>load_data\<close> reads the CSV and
  appends the calendar columns; everything after it reads the frame \<^verbatim>\<open>df\<close> column by
  column. A row of \<^verbatim>\<open>df\<close> is a record of the columns the script reads: the CSV columns
  \<^verbatim>\<open>order_id, cust_id, category, item, quantity, order_total\<close> and the derived
  \<^verbatim>\<open>day, weekday, month, year\<close> (\<^verbatim>\<open>order_date\<close> and \<^verbatim>\<open>week\<close> are never read again
  after loading and are left out). A frame is the list of its rows, in row order.

  Every cell holds a value (no missing cells). Currency amounts are exact rationals:
  the rounding of binary floating point is not part of the model. A calendar day is
  the triple (year, month, day of month), ordered lexicographically.
\<close>

type_synonym date = "int \<times> nat \<times> nat"

record row =
  order_id :: int
  cust_id :: string
  category :: string
  item :: string
  quantity :: int
  order_total :: rat
  day :: date
  weekday :: string
  month :: nat
  year :: int

type_synonym frame = "row list"

datatype py_error = IndexError | KeyError

section \<open>Sidebar filters (lines 44-59)\<close>

text \<open>
  \<^verbatim>\<open>Series.unique()\<close>: the distinct values in order of first appearance.
\<close>

definition unique :: "'a list \<Rightarrow> 'a list" where
  "unique xs = rev (remdups (rev xs))"

text \<open>
  \<^verbatim>\<open>st.sidebar.multiselect(label, options=..., default=...)\<close> returns the chosen
  options: whatever the user picks, the value is a list of elements of \<^verbatim>\<open>options\<close>.
  The user's picks are the argument \<open>chosen\<close>; the default is \<open>chosen = options\<close>.
\<close>

definition multiselect :: "'a list \<Rightarrow> 'a list \<Rightarrow> 'a list" where
  "multiselect options chosen = [c \<leftarrow> chosen. c \<in> set options]"

text \<open>\<^verbatim>\<open>Series.isin(values)\<close>, for one cell.\<close>

definition isin :: "'a \<Rightarrow> 'a list \<Rightarrow> bool" where
  "isin v vals \<longleftrightarrow> v \<in> set vals"

text \<open>
  \<^verbatim>\<open>filtered_df = df[(df["category"].isin(selected_category)) &
                     (df["weekday"].isin(selected_weekday))]\<close>
\<close>

definition filtered_df :: "frame \<Rightarrow> string list \<Rightarrow> string list \<Rightarrow> frame" where
  "filtered_df df selected_category selected_weekday =
     [r \<leftarrow> df. isin (category r) selected_category \<and> isin (weekday r) selected_weekday]"

definition category_options :: "frame \<Rightarrow> string list" where
  "category_options df = unique (map category df)"

definition weekday_options :: "frame \<Rightarrow> string list" where
  "weekday_options df = unique (map weekday df)"

section \<open>Aggregation primitives\<close>

text \<open>
  \<^verbatim>\<open>frame.groupby(key, as_index=False).agg(name=(column, f))\<close>: one output row per
  distinct key value, in ascending key order (\<^verbatim>\<open>sort=True\<close> is the default), holding
  the key and \<open>f\<close> applied to the rows of that group. A frame with no rows gives a
  table with no rows.
\<close>

definition groupby_agg :: "('r \<Rightarrow> 'k::linorder) \<Rightarrow> ('r list \<Rightarrow> 'v) \<Rightarrow> 'r list \<Rightarrow> ('k \<times> 'v) list" where
  "groupby_agg key agg t = map (\<lambda>k. (k, agg [r \<leftarrow> t. key r = k])) (sort (remdups (map key t)))"

text \<open>
  \<^verbatim>\<open>Series.sum()\<close> is 0 on no rows. \<^verbatim>\<open>Series.mean()\<close> on no rows is the float
  \<^verbatim>\<open>nan\<close>: the result type has that value beside the finite ones.
  \<^verbatim>\<open>Series.nunique()\<close> counts the distinct values.
\<close>

datatype pyfloat = Finite rat | NaN

definition series_sum :: "('a::monoid_add) list \<Rightarrow> 'a" where
  "series_sum xs = sum_list xs"

definition series_mean :: "rat list \<Rightarrow> pyfloat" where
  "series_mean xs = (if xs = [] then NaN else Finite (sum_list xs / of_nat (length xs)))"

definition nunique :: "'a list \<Rightarrow> nat" where
  "nunique xs = length (remdups xs)"

text \<open>
  \<^verbatim>\<open>table.sort_values(column, ascending=False)\<close>. pandas sorts through numpy's
  \<^verbatim>\<open>argsort\<close> with the default \<^verbatim>\<open>kind="quicksort"\<close>, which promises an index
  permutation that puts the keys in ascending order and no more (it is not a stable
  sort). The argsort is therefore a parameter \<open>kind\<close> of the model, and
  \<open>argsort_ok\<close> is its contract. For a descending sort pandas reverses the column,
  argsorts it, and reverses the resulting row order.
\<close>

type_synonym argsort = "rat list \<Rightarrow> nat list"

definition argsort_ok :: "argsort \<Rightarrow> bool" where
  "argsort_ok kind \<longleftrightarrow>
     (\<forall>ks. mset (kind ks) = mset [0..<length ks] \<and> sorted (map ((!) ks) (kind ks)))"

definition sort_values_desc :: "argsort \<Rightarrow> ('a \<Rightarrow> rat) \<Rightarrow> 'a list \<Rightarrow> 'a list" where
  "sort_values_desc kind col t =
     (let r = rev t; indexer = kind (map col r) in rev (map ((!) r) indexer))"

text \<open>
  Two argsorts that meet the contract: one keeps equal keys in their input order
  (as a merge sort does), the other leaves them in the opposite order.
\<close>

definition argsort_stable :: argsort where
  "argsort_stable ks = map snd (sort_key fst (zip ks [0..<length ks]))"


text \<open>\<^verbatim>\<open>table.head(n)\<close> and \<^verbatim>\<open>table.iloc[0]\<close>, which raises IndexError on no rows.\<close>

definition head :: "nat \<Rightarrow> 'a list \<Rightarrow> 'a list" where
  "head n t = take n t"

definition iloc0 :: "'a list \<Rightarrow> py_error + 'a" where
  "iloc0 t = (case t of [] \<Rightarrow> Inl IndexError | x # _ \<Rightarrow> Inr x)"

section \<open>KPI metrics (lines 74-87)\<close>

definition total_revenue :: "frame \<Rightarrow> rat" where
  "total_revenue fv = series_sum (map order_total fv)"

definition total_items_sold :: "frame \<Rightarrow> int" where
  "total_items_sold fv = series_sum (map quantity fv)"

definition avg_order_value :: "frame \<Rightarrow> pyfloat" where
  "avg_order_value fv = series_mean (map order_total fv)"

section \<open>Customer analysis (lines 104-112 and 146-154)\<close>

definition customer_revenue :: "argsort \<Rightarrow> frame \<Rightarrow> (string \<times> rat) list" where
  "customer_revenue kind fv =
     head 10 (sort_values_desc kind snd
       (groupby_agg cust_id (\<lambda>g. series_sum (map order_total g)) fv))"

definition customer_loyalty :: "argsort \<Rightarrow> frame \<Rightarrow> (string \<times> nat) list" where
  "customer_loyalty kind fv =
     head 10 (sort_values_desc kind (\<lambda>(c, n). of_nat n)
       (groupby_agg cust_id (\<lambda>g. nunique (map order_id g)) fv))"

section \<open>Category, item and weekday tables (lines 207-211, 242-246, 284-291, 322-326)\<close>

definition rev_cat :: "frame \<Rightarrow> (string \<times> rat) list" where
  "rev_cat fv = groupby_agg category (\<lambda>g. series_sum (map order_total g)) fv"

definition vol_cat :: "frame \<Rightarrow> (string \<times> int) list" where
  "vol_cat fv = groupby_agg category (\<lambda>g. series_sum (map quantity g)) fv"

definition item_perf :: "frame \<Rightarrow> ((string \<times> string) \<times> int \<times> rat) list" where
  "item_perf fv =
     groupby_agg (\<lambda>r. (category r, item r))
       (\<lambda>g. (series_sum (map quantity g), series_sum (map order_total g))) fv"

definition weekday_order :: "frame \<Rightarrow> (string \<times> nat) list" where
  "weekday_order fv = groupby_agg weekday (\<lambda>g. nunique (map order_id g)) fv"

section \<open>Daily revenue by year (lines 352-446)\<close>

definition MONTH_MAP :: "(nat \<times> string) list" where
  "MONTH_MAP =
    [(1, ''January''), (2, ''February''), (3, ''March''), (4, ''April''),
     (5, ''May''), (6, ''June''), (7, ''July''), (8, ''August''),
     (9, ''September''), (10, ''October''), (11, ''November''), (12, ''December'')]"

text \<open>\<^verbatim>\<open>MONTH_MAP[m]\<close>: KeyError when \<open>m\<close> is not a key.\<close>

definition month_name :: "nat \<Rightarrow> py_error + string" where
  "month_name m = (case map_of MONTH_MAP m of None \<Rightarrow> Inl KeyError | Some v \<Rightarrow> Inr v)"

text \<open>A list comprehension whose element expression may raise stops at the first error.\<close>

fun map_err :: "('a \<Rightarrow> 'e + 'b) \<Rightarrow> 'a list \<Rightarrow> 'e + 'b list" where
  "map_err f [] = Inr []"
| "map_err f (x # xs) =
     (case f x of
        Inl e \<Rightarrow> Inl e
      | Inr y \<Rightarrow> (case map_err f xs of Inl e \<Rightarrow> Inl e | Inr ys \<Rightarrow> Inr (y # ys)))"

text \<open>
  The two columns of the page run the same code, once with the literal 2022 and
  once with 2023; the year is the parameter \<open>y\<close> here.
  \<^verbatim>\<open>df_2022 = filtered_df[filtered_df["year"] == 2022]\<close>,
  \<^verbatim>\<open>months_2022 = sorted(df_2022["month"].dropna().unique().tolist())\<close> (no cell is
  missing, so \<^verbatim>\<open>dropna\<close> drops nothing),
  \<^verbatim>\<open>month_options_2022 = ["All Months"] + [MONTH_MAP[m] for m in months_2022]\<close>.
\<close>

definition df_year :: "int \<Rightarrow> frame \<Rightarrow> frame" where
  "df_year y fv = [r \<leftarrow> fv. year r = y]"

definition months :: "int \<Rightarrow> frame \<Rightarrow> nat list" where
  "months y fv = sort (unique (map month (df_year y fv)))"

definition month_options :: "int \<Rightarrow> frame \<Rightarrow> py_error + string list" where
  "month_options y fv =
     (case map_err month_name (months y fv) of
        Inl e \<Rightarrow> Inl e
      | Inr names \<Rightarrow> Inr (''All Months'' # names))"

text \<open>
  \<^verbatim>\<open>st.selectbox(label, options=..., key=...)\<close> returns one of the options: the
  user's choice when it is among them, the first option otherwise (the state of a
  keyed widget whose old value is no longer offered falls back to index 0), and
  \<^verbatim>\<open>None\<close> when there is no option at all.
\<close>

definition selectbox :: "string list \<Rightarrow> string \<Rightarrow> string option" where
  "selectbox options choice =
     (if choice \<in> set options then Some choice
      else (case options of [] \<Rightarrow> None | x # _ \<Rightarrow> Some x))"

text \<open>
  \<^verbatim>\<open>[k for k, v in MONTH_MAP.items() if v == selected][0]\<close>: the first key whose name
  is the selected one, IndexError when there is none.
\<close>

definition month_num :: "string option \<Rightarrow> py_error + nat" where
  "month_num selected = iloc0 [k. (k, v) \<leftarrow> MONTH_MAP, Some v = selected]"

definition plot_df :: "int \<Rightarrow> frame \<Rightarrow> string option \<Rightarrow> py_error + frame" where
  "plot_df y fv selected =
     (if selected = Some ''All Months'' then Inr (df_year y fv)
      else (case month_num selected of
              Inl e \<Rightarrow> Inl e
            | Inr n \<Rightarrow> Inr [r \<leftarrow> df_year y fv. month r = n]))"

definition daily_rev :: "frame \<Rightarrow> (date \<times> rat) list" where
  "daily_rev p = groupby_agg day (\<lambda>g. series_sum (map order_total g)) p"

text \<open>What a column shows: the \<^verbatim>\<open>st.info\<close> message or the line chart of the table.\<close>

datatype panel = Info string | LineChart "(date \<times> rat) list"

definition daily_revenue :: "int \<Rightarrow> frame \<Rightarrow> string option \<Rightarrow> py_error + panel" where
  "daily_revenue y fv selected =
     (case plot_df y fv selected of
        Inl e \<Rightarrow> Inl e
      | Inr p \<Rightarrow>
          (let t = daily_rev p in
           if t = [] then Inr (Info ''No data available for this month.'')
           else Inr (LineChart t)))"

definition daily_revenue_panel :: "int \<Rightarrow> frame \<Rightarrow> string \<Rightarrow> py_error + panel" where
  "daily_revenue_panel y fv choice =
     (case month_options y fv of
        Inl e \<Rightarrow> Inl e
      | Inr options \<Rightarrow> daily_revenue y fv (selectbox options choice))"

section \<open>The page\<close>

text \<open>
  One run of the script, top to bottom, from the loaded frame and the state of the
  four widgets. An exception that the script does not catch ends the run: the page
  shows the traceback in place of everything that would follow.
\<close>

record page =
  out_total_revenue :: rat
  out_total_items :: int
  out_avg_order_value :: pyfloat
  out_customer_revenue :: "(string \<times> rat) list"
  out_top_spender :: "string \<times> rat"
  out_customer_loyalty :: "(string \<times> nat) list"
  out_most_loyal :: "string \<times> nat"
  out_rev_cat :: "(string \<times> rat) list"
  out_vol_cat :: "(string \<times> int) list"
  out_item_perf :: "((string \<times> string) \<times> int \<times> rat) list"
  out_weekday_order :: "(string \<times> nat) list"
  out_2022 :: panel
  out_2023 :: panel

definition app ::
  "argsort \<Rightarrow> frame \<Rightarrow> string list \<Rightarrow> string list \<Rightarrow> string \<Rightarrow> string \<Rightarrow> py_error + page" where
  "app kind df chosen_category chosen_weekday choice_2022 choice_2023 =
     (let selected_category = multiselect (category_options df) chosen_category;
          selected_weekday = multiselect (weekday_options df) chosen_weekday;
          fv = filtered_df df selected_category selected_weekday
      in
      case iloc0 (customer_revenue kind fv) of
        Inl e \<Rightarrow> Inl e
      | Inr top_spender \<Rightarrow>
      (case iloc0 (customer_loyalty kind fv) of
        Inl e \<Rightarrow> Inl e
      | Inr most_loyal \<Rightarrow>
      (case daily_revenue_panel 2022 fv choice_2022 of
        Inl e \<Rightarrow> Inl e
      | Inr p2022 \<Rightarrow>
      (case daily_revenue_panel 2023 fv choice_2023 of
        Inl e \<Rightarrow> Inl e
      | Inr p2023 \<Rightarrow>
          Inr \<lparr>out_total_revenue = total_revenue fv,
               out_total_items = total_items_sold fv,
               out_avg_order_value = avg_order_value fv,
               out_customer_revenue = customer_revenue kind fv,
               out_top_spender = top_spender,
               out_customer_loyalty = customer_loyalty kind fv,
               out_most_loyal = most_loyal,
               out_rev_cat = rev_cat fv,
               out_vol_cat = vol_cat fv,
               out_item_perf = item_perf fv,
               out_weekday_order = weekday_order fv,
               out_2022 = p2022,
               out_2023 = p2023\<rparr>))))"

section \<open>The specification's tie-break, as a predicate\<close>


section \<open>Example frames\<close>

text \<open>
  The three order lines of the specification's worked example: customer A buys
  Drinks (2 pcs, 10.00) and Food (1 pc, 20.00) on a Monday, customer B buys
  Drinks (1 pc, 5.00) on a Tuesday.
\<close>

definition ex_df :: frame where
  "ex_df =
    [\<lparr>order_id = 1, cust_id = ''A'', category = ''Drinks'', item = ''Tea'', quantity = 2,
      order_total = 10, day = (2022, 1, 3), weekday = ''Monday'', month = 1, year = 2022\<rparr>,
     \<lparr>order_id = 2, cust_id = ''A'', category = ''Food'', item = ''Soup'', quantity = 1,
      order_total = 20, day = (2022, 1, 3), weekday = ''Monday'', month = 1, year = 2022\<rparr>,
     \<lparr>order_id = 3, cust_id = ''B'', category = ''Drinks'', item = ''Tea'', quantity = 1,
      order_total = 5, day = (2023, 2, 7), weekday = ''Tuesday'', month = 2, year = 2023\<rparr>]"

text \<open>Two customers with the same total.\<close>

definition tie_df :: frame where
  "tie_df =
    [\<lparr>order_id = 1, cust_id = ''A'', category = ''Drinks'', item = ''Tea'', quantity = 1,
      order_total = 10, day = (2022, 1, 3), weekday = ''Monday'', month = 1, year = 2022\<rparr>,
     \<lparr>order_id = 2, cust_id = ''B'', category = ''Drinks'', item = ''Tea'', quantity = 1,
      order_total = 10, day = (2022, 1, 4), weekday = ''Tuesday'', month = 1, year = 2022\<rparr>]"

text \<open>One order line of a year that has no column on the page.\<close>

definition ex_2024 :: frame where
  "ex_2024 =
    [\<lparr>order_id = 4, cust_id = ''C'', category = ''Food'', item = ''Soup'', quantity = 3,
      order_total = 60, day = (2024, 3, 1), weekday = ''Friday'', month = 3, year = 2024\<rparr>]"

section \<open>Properties of the filter\<close>

lemma set_unique [simp]: "set (unique xs) = set xs"
  by (simp add: unique_def)

lemma distinct_unique [simp]: "distinct (unique xs)"
  by (simp add: unique_def)

lemma set_multiselect: "set (multiselect options chosen) \<subseteq> set options"
  by (auto simp: multiselect_def)

lemma length_filter_full_iff:
  "length (filter P xs) = length xs \<longleftrightarrow> (\<forall>x \<in> set xs. P x)"
proof
  assume eq: "length (filter P xs) = length xs"
  have "length (filter P xs) + length (filter (\<lambda>x. \<not> P x) xs) = length xs"
    by (rule sum_length_filter_compl)
  with eq have "filter (\<lambda>x. \<not> P x) xs = []" by simp
  then show "\<forall>x \<in> set xs. P x" by (simp add: filter_empty_conv)
next
  assume "\<forall>x \<in> set xs. P x"
  then show "length (filter P xs) = length xs" by simp
qed

lemma filtered_df_full_iff:
  "length (filtered_df df cs ws) = length df \<longleftrightarrow>
     set (category_options df) \<subseteq> set cs \<and> set (weekday_options df) \<subseteq> set ws"
  by (auto simp: filtered_df_def isin_def category_options_def weekday_options_def
        length_filter_full_iff)

text \<open>
  C6. Filtering an already filtered view with the same selections gives the view
  back, and two selections that are permutations of each other (whatever the order
  of the categories and of the weekdays inside them) give the same view.
\<close>

theorem filter_idempotent_order_independent:
  "filtered_df (filtered_df df cs ws) cs ws = filtered_df df cs ws \<and>
   (mset cs' = mset cs \<and> mset ws' = mset ws \<longrightarrow>
      filtered_df df cs' ws' = filtered_df df cs ws)"
proof (intro conjI impI)
  show "filtered_df (filtered_df df cs ws) cs ws = filtered_df df cs ws"
    by (simp add: filtered_df_def)
next
  assume "mset cs' = mset cs \<and> mset ws' = mset ws"
  then have "set cs' = set cs" and "set ws' = set ws"
    by (metis set_mset_mset)+
  then show "filtered_df df cs' ws' = filtered_df df cs ws"
    by (simp add: filtered_df_def isin_def)
qed

theorem filter_idempotent_order_independent_witness:
  "filtered_df (filtered_df ex_df [''Drinks'', ''Food''] [''Monday'', ''Tuesday''])
       [''Drinks'', ''Food''] [''Monday'', ''Tuesday'']
     = filtered_df ex_df [''Drinks'', ''Food''] [''Monday'', ''Tuesday''] \<and>
   mset [''Food'', ''Drinks''] = mset [''Drinks'', ''Food''] \<and>
   mset [''Tuesday'', ''Monday''] = mset [''Monday'', ''Tuesday''] \<and>
   filtered_df ex_df [''Food'', ''Drinks''] [''Tuesday'', ''Monday'']
     = filtered_df ex_df [''Drinks'', ''Food''] [''Monday'', ''Tuesday''] \<and>
   length (filtered_df ex_df [''Food'', ''Drinks''] [''Tuesday'', ''Monday'']) = 3"
proof -
  have p: "mset [''Food'', ''Drinks''] = mset [''Drinks'', ''Food''] \<and>
           mset [''Tuesday'', ''Monday''] = mset [''Monday'', ''Tuesday'']"
    by simp
  have l: "length (filtered_df ex_df [''Food'', ''Drinks''] [''Tuesday'', ''Monday'']) = 3"
    by (simp add: filtered_df_def isin_def ex_df_def)
  from p l filter_idempotent_order_independent
         [of ex_df "[''Drinks'', ''Food'']" "[''Monday'', ''Tuesday'']"
             "[''Food'', ''Drinks'']" "[''Tuesday'', ''Monday'']"]
  show ?thesis by blast
qed

text \<open>
  C4. The Filtered View never has more rows than the Dataset. For a Filter Selection
  (two sets of values present in the dataset, as the multiselect widgets return
  them) the row counts are equal exactly when both selections are the full domain.
  For any two lists of values the counts are equal exactly when every category and
  every weekday of the dataset is selected. A selected value that no row carries
  matches nothing and raises nothing: the view is the one obtained without it.
\<close>

theorem filtered_view_row_count:
  "length (filtered_df df cs ws) \<le> length df \<and>
   (set cs \<subseteq> set (category_options df) \<and> set ws \<subseteq> set (weekday_options df) \<longrightarrow>
      (length (filtered_df df cs ws) = length df \<longleftrightarrow>
         set cs = set (category_options df) \<and> set ws = set (weekday_options df))) \<and>
   (length (filtered_df df cs ws) = length df \<longleftrightarrow>
      set (category_options df) \<subseteq> set cs \<and> set (weekday_options df) \<subseteq> set ws) \<and>
   filtered_df df cs ws =
     filtered_df df (multiselect (category_options df) cs) (multiselect (weekday_options df) ws)"
proof (intro conjI impI)
  show "length (filtered_df df cs ws) \<le> length df"
    by (simp add: filtered_df_def)
next
  show "length (filtered_df df cs ws) = length df \<longleftrightarrow>
      set (category_options df) \<subseteq> set cs \<and> set (weekday_options df) \<subseteq> set ws"
    by (rule filtered_df_full_iff)
next
  assume "set cs \<subseteq> set (category_options df) \<and> set ws \<subseteq> set (weekday_options df)"
  then show "length (filtered_df df cs ws) = length df \<longleftrightarrow>
         set cs = set (category_options df) \<and> set ws = set (weekday_options df)"
    unfolding filtered_df_full_iff by blast
next
  show "filtered_df df cs ws =
     filtered_df df (multiselect (category_options df) cs) (multiselect (weekday_options df) ws)"
    unfolding filtered_df_def isin_def multiselect_def category_options_def weekday_options_def
    by (rule filter_cong) auto
qed

theorem filtered_view_row_count_witness:
  "set [''Drinks'', ''Food''] \<subseteq> set (category_options ex_df) \<and>
   set [''Tuesday'', ''Monday''] \<subseteq> set (weekday_options ex_df) \<and>
   length (filtered_df ex_df [''Drinks'', ''Food''] [''Tuesday'', ''Monday'']) = length ex_df \<and>
   set [''Drinks'', ''Food''] = set (category_options ex_df) \<and>
   set [''Tuesday'', ''Monday''] = set (weekday_options ex_df) \<and>
   filtered_df ex_df [''Drinks'', ''Ghost''] [''Monday'', ''Tuesday''] =
     filtered_df ex_df [''Drinks''] [''Monday'', ''Tuesday''] \<and>
   length (filtered_df ex_df [''Drinks'', ''Ghost''] [''Monday'', ''Tuesday'']) = 2"
proof -
  have c: "category_options ex_df = [''Drinks'', ''Food'']"
    by (simp add: category_options_def unique_def ex_df_def)
  have w: "weekday_options ex_df = [''Monday'', ''Tuesday'']"
    by (simp add: weekday_options_def unique_def ex_df_def)
  have s: "set [''Drinks'', ''Food''] \<subseteq> set (category_options ex_df) \<and>
           set [''Tuesday'', ''Monday''] \<subseteq> set (weekday_options ex_df)"
    unfolding c w by auto
  have e: "set [''Drinks'', ''Food''] = set (category_options ex_df) \<and>
           set [''Tuesday'', ''Monday''] = set (weekday_options ex_df)"
    unfolding c w by auto
  have m1: "multiselect (category_options ex_df) [''Drinks'', ''Ghost''] = [''Drinks'']"
    unfolding c by (simp add: multiselect_def)
  have m2: "multiselect (weekday_options ex_df) [''Monday'', ''Tuesday''] = [''Monday'', ''Tuesday'']"
    unfolding w by (simp add: multiselect_def)
  have l: "length (filtered_df ex_df [''Drinks'', ''Ghost''] [''Monday'', ''Tuesday'']) = 2"
    by (simp add: filtered_df_def isin_def ex_df_def)
  from filtered_view_row_count [of ex_df "[''Drinks'', ''Food'']" "[''Tuesday'', ''Monday'']"] s e
  have a: "length (filtered_df ex_df [''Drinks'', ''Food''] [''Tuesday'', ''Monday'']) = length ex_df"
    by blast
  from filtered_view_row_count [of ex_df "[''Drinks'', ''Ghost'']" "[''Monday'', ''Tuesday'']"]
  have b: "filtered_df ex_df [''Drinks'', ''Ghost''] [''Monday'', ''Tuesday''] =
     filtered_df ex_df [''Drinks''] [''Monday'', ''Tuesday'']"
    unfolding m1 m2 by blast
  from s e a b l show ?thesis by blast
qed

section \<open>Grouping partitions the rows\<close>




lemma map_fst_groupby_agg: "map fst (groupby_agg key agg t) = sort (remdups (map key t))"
  by (simp add: groupby_agg_def comp_def)



lemma set_groupby_keys: "set (map fst (groupby_agg key agg t)) = key ` set t"
  by (simp add: map_fst_groupby_agg)


lemma groupby_agg_empty_iff: "groupby_agg key agg t = [] \<longleftrightarrow> t = []"
proof -
  have "groupby_agg key agg t = [] \<longleftrightarrow> set (map fst (groupby_agg key agg t)) = {}"
    by simp
  then show ?thesis unfolding set_groupby_keys by simp
qed




section \<open>Sorting and the customer tables\<close>

lemma argsort_ok_mset: "argsort_ok kind \<Longrightarrow> mset (kind ks) = mset [0..<length ks]"
  by (simp add: argsort_ok_def)



lemma mset_sort_values_desc:
  assumes "argsort_ok kind"
  shows "mset (sort_values_desc kind col t) = mset t"
proof -
  let ?r = "rev t"
  have "mset (map ((!) ?r) (kind (map col ?r))) = image_mset ((!) ?r) (mset (kind (map col ?r)))"
    by simp
  also have "\<dots> = image_mset ((!) ?r) (mset [0..<length ?r])"
    using argsort_ok_mset [OF assms, of "map col ?r"] by simp
  also have "\<dots> = mset (map ((!) ?r) [0..<length ?r])"
    by simp
  also have "\<dots> = mset ?r"
    by (simp only: map_nth)
  finally show ?thesis by (simp add: sort_values_desc_def Let_def)
qed


lemma length_sort_values_desc:
  "argsort_ok kind \<Longrightarrow> length (sort_values_desc kind col t) = length t"
  by (metis mset_sort_values_desc size_mset)


lemma zip_index: "z \<in> set (zip ks [0..<length ks]) \<Longrightarrow> ks ! snd z = fst z \<and> snd z < length ks"
  by (cases z) (auto simp: set_zip)

lemma argsort_stable_ok: "argsort_ok argsort_stable"
  unfolding argsort_ok_def
proof (intro allI conjI)
  fix ks :: "rat list"
  let ?zs = "zip ks [0..<length ks]"
  have "mset (argsort_stable ks) = image_mset snd (mset ?zs)"
    by (simp add: argsort_stable_def)
  also have "\<dots> = mset (map snd ?zs)"
    by (simp only: mset_map)
  also have "map snd ?zs = [0..<length ks]" by simp
  finally show "mset (argsort_stable ks) = mset [0..<length ks]" .
  have "map ((!) ks) (argsort_stable ks) = map fst (sort_key fst ?zs)"
    unfolding argsort_stable_def map_map
    by (rule map_cong) (auto simp: zip_index)
  then show "sorted (map ((!) ks) (argsort_stable ks))" by simp
qed



lemma head_sorted: "sorted_wrt P t \<Longrightarrow> sorted_wrt P (head n t)"
  by (simp add: head_def sorted_wrt_take)




lemma customer_revenue_tie_stable: "customer_revenue argsort_stable tie_df = [(''A'', 10), (''B'', 10)]"
  by (simp add: customer_revenue_def head_def sort_values_desc_def groupby_agg_def
      argsort_stable_def series_sum_def tie_df_def)




section \<open>Daily revenue\<close>

lemma month_cases:
  "m \<in> {1..12} \<Longrightarrow> m = 1 \<or> m = 2 \<or> m = 3 \<or> m = 4 \<or> m = 5 \<or> m = 6 \<or> m = 7 \<or> m = 8 \<or>
     m = 9 \<or> m = 10 \<or> m = 11 \<or> m = (12::nat)"
  by (simp add: atLeastAtMost_iff) arith

lemma month_round_trip:
  assumes "m \<in> {1..12}"
  shows "\<exists>name. month_name m = Inr name \<and> month_num (Some name) = Inr m \<and> name \<noteq> ''All Months''"
  using month_cases [OF assms]
  by (elim disjE) (simp_all add: month_name_def month_num_def MONTH_MAP_def iloc0_def)

lemma month_name_Inr_range: "month_name m = Inr name \<Longrightarrow> m \<in> {1..12}"
  by (auto simp: month_name_def MONTH_MAP_def split: if_splits)

lemma map_err_Inr_conv:
  "map_err f xs = Inr ys \<longleftrightarrow> map f xs = map Inr ys"
proof (induction xs arbitrary: ys)
  case Nil then show ?case by auto
next
  case (Cons x xs)
  show ?case
  proof (cases "f x")
    case (Inl e)
    then show ?thesis by (cases ys) auto
  next
    case (Inr y)
    show ?thesis
    proof (cases "map_err f xs")
      case (Inl e)
      with Inr Cons.IH show ?thesis by (cases ys) auto
    next
      case r: (Inr zs)
      with Inr Cons.IH show ?thesis by (cases ys) auto
    qed
  qed
qed

lemma map_err_total:
  "(\<And>x. x \<in> set xs \<Longrightarrow> \<exists>y. f x = Inr y) \<Longrightarrow> \<exists>ys. map_err f xs = Inr ys"
proof (induction xs)
  case Nil then show ?case by simp
next
  case (Cons x xs)
  then obtain y ys where "f x = Inr y" "map_err f xs = Inr ys" by (meson list.set_intros)
  then show ?case by simp
qed

lemma months_sorted_list_of_set:
  "months y fv = sorted_list_of_set (month ` set (df_year y fv))"
proof -
  have "sorted (months y fv)" "distinct (months y fv)"
    "set (months y fv) = month ` set (df_year y fv)"
    by (simp_all add: months_def)
  then show ?thesis
    by (metis sorted_list_of_set.idem_if_sorted_distinct)
qed


lemma round_trip_plot_df:
  assumes "m \<in> {1..12}"
  shows "\<exists>name. month_name m = Inr name \<and> month_num (Some name) = Inr m \<and>
        plot_df y fv (Some name) = Inr [r \<leftarrow> df_year y fv. month r = m]"
proof -
  from assms obtain name where n: "month_name m = Inr name" "month_num (Some name) = Inr m"
    "name \<noteq> ''All Months''"
    using month_round_trip by blast
  then have "plot_df y fv (Some name) = Inr [r \<leftarrow> df_year y fv. month r = m]"
    by (simp add: plot_df_def)
  with n show ?thesis by blast
qed

text \<open>
  C10. For every month number 1..12, \<^verbatim>\<open>MONTH_MAP[m]\<close> is a name whose look-up by
  value gives \<open>m\<close> back, and selecting that name narrows the year's rows to exactly
  those whose month is \<open>m\<close>.
\<close>

theorem month_map_round_trip:
  "m \<in> {1..12} \<longrightarrow>
     (\<exists>name. month_name m = Inr name \<and> month_num (Some name) = Inr m \<and>
        plot_df y fv (Some name) = Inr [r \<leftarrow> df_year y fv. month r = m])"
proof
  assume "m \<in> {1..12}"
  then obtain name where n: "month_name m = Inr name" "month_num (Some name) = Inr m"
    "name \<noteq> ''All Months''"
    using month_round_trip by blast
  then have "plot_df y fv (Some name) = Inr [r \<leftarrow> df_year y fv. month r = m]"
    by (simp add: plot_df_def)
  with n show "\<exists>name. month_name m = Inr name \<and> month_num (Some name) = Inr m \<and>
        plot_df y fv (Some name) = Inr [r \<leftarrow> df_year y fv. month r = m]"
    by blast
qed

theorem month_map_round_trip_witness:
  "(1::nat) \<in> {1..12} \<and> month_name 1 = Inr ''January'' \<and> month_num (Some ''January'') = Inr 1 \<and>
   plot_df 2022 ex_df (Some ''January'') = Inr [r \<leftarrow> df_year 2022 ex_df. month r = 1] \<and>
   length [r \<leftarrow> df_year 2022 ex_df. month r = 1] = 2"
proof -
  have r: "(1::nat) \<in> {1..12}" by simp
  have n: "month_name 1 = Inr ''January''"
    by (simp add: month_name_def MONTH_MAP_def)
  have l: "length [r \<leftarrow> df_year 2022 ex_df. month r = 1] = 2"
    by (simp add: df_year_def ex_df_def)
  from month_map_round_trip [of 1 2022 ex_df] r n l show ?thesis by auto
qed

lemma daily_rev_empty_iff: "daily_rev p = [] \<longleftrightarrow> p = []"
  by (simp add: daily_rev_def groupby_agg_empty_iff)

lemma daily_revenue_of_plot_df:
  "plot_df y fv selected = Inr p \<Longrightarrow>
     daily_revenue y fv selected =
       Inr (if p = [] then Info ''No data available for this month.''
            else LineChart (daily_rev p))"
  by (simp add: daily_revenue_def Let_def daily_rev_empty_iff)

lemma daily_revenue_chart_nonempty:
  "daily_revenue y fv selected = Inr (LineChart t) \<Longrightarrow> t \<noteq> []"
  by (auto simp: daily_revenue_def Let_def split: sum.splits if_splits)

lemma filter_year_month:
  "[r \<leftarrow> df_year y fv. month r = m] = [r \<leftarrow> fv. year r = y \<and> month r = m]"
  by (simp add: df_year_def conj_commute)

lemma daily_revenue_panel_empty_year:
  assumes "df_year y fv = []"
  shows "daily_revenue_panel y fv choice = Inr (Info ''No data available for this month.'')"
proof -
  have o: "month_options y fv = Inr [''All Months'']"
    using assms by (simp add: month_options_def months_def unique_def)
  have s: "selectbox [''All Months''] choice = Some ''All Months''"
    by (simp add: selectbox_def)
  have "plot_df y fv (Some ''All Months'') = Inr []"
    using assms by (simp add: plot_df_def)
  from daily_revenue_of_plot_df [OF this] o s show ?thesis
    by (simp add: daily_revenue_panel_def)
qed

lemma daily_revenue_panel_chart_nonempty:
  "daily_revenue_panel y fv choice = Inr (LineChart t) \<Longrightarrow> t \<noteq> []"
  by (auto simp: daily_revenue_panel_def split: sum.splits dest: daily_revenue_chart_nonempty)

text \<open>
  C7. A year with no row in the view, under "All Months", and a month of the
  calendar with no row in that year of the view, under its name, both give the
  \<^verbatim>\<open>st.info\<close> message "No data available for this month."; nothing is raised.
  The column of a year with no row shows that message whatever the widget state,
  and a line chart is never drawn from an empty table.
\<close>

theorem daily_revenue_reports_no_data:
  "(df_year y fv = [] \<longrightarrow>
      daily_revenue y fv (Some ''All Months'') = Inr (Info ''No data available for this month.'') \<and>
      daily_revenue_panel y fv choice = Inr (Info ''No data available for this month.'')) \<and>
   (m \<in> {1..12} \<and> [r \<leftarrow> fv. year r = y \<and> month r = m] = [] \<longrightarrow>
      (\<exists>name. month_name m = Inr name \<and>
         daily_revenue y fv (Some name) = Inr (Info ''No data available for this month.''))) \<and>
   (daily_revenue y fv selected = Inr (LineChart t) \<longrightarrow> t \<noteq> []) \<and>
   (daily_revenue_panel y fv choice = Inr (LineChart t) \<longrightarrow> t \<noteq> [])"
proof (intro conjI impI)
  assume e: "df_year y fv = []"
  then have "plot_df y fv (Some ''All Months'') = Inr []"
    by (simp add: plot_df_def)
  from daily_revenue_of_plot_df [OF this] show
    "daily_revenue y fv (Some ''All Months'') = Inr (Info ''No data available for this month.'')"
    by simp
  from e show
    "daily_revenue_panel y fv choice = Inr (Info ''No data available for this month.'')"
    by (rule daily_revenue_panel_empty_year)
next
  assume a: "m \<in> {1..12} \<and> [r \<leftarrow> fv. year r = y \<and> month r = m] = []"
  then obtain name where n: "month_name m = Inr name"
    "plot_df y fv (Some name) = Inr [r \<leftarrow> df_year y fv. month r = m]"
    using round_trip_plot_df by blast
  with a have
    "daily_revenue y fv (Some name) = Inr (Info ''No data available for this month.'')"
    using daily_revenue_of_plot_df [OF n(2)] by (simp add: filter_year_month)
  with n show "\<exists>name. month_name m = Inr name \<and>
      daily_revenue y fv (Some name) = Inr (Info ''No data available for this month.'')"
    by blast
next
  assume "daily_revenue y fv selected = Inr (LineChart t)"
  then show "t \<noteq> []" by (rule daily_revenue_chart_nonempty)
next
  assume "daily_revenue_panel y fv choice = Inr (LineChart t)"
  then show "t \<noteq> []" by (rule daily_revenue_panel_chart_nonempty)
qed

theorem daily_revenue_reports_no_data_witness:
  "df_year 2022 (filtered_df ex_df [''Drinks''] [''Tuesday'']) = [] \<and>
   daily_revenue 2022 (filtered_df ex_df [''Drinks''] [''Tuesday'']) (Some ''All Months'')
     = Inr (Info ''No data available for this month.'') \<and>
   daily_revenue_panel 2022 (filtered_df ex_df [''Drinks''] [''Tuesday'']) ''January''
     = Inr (Info ''No data available for this month.'') \<and>
   (3::nat) \<in> {1..12} \<and>
   [r \<leftarrow> filtered_df ex_df [''Drinks''] [''Tuesday'']. year r = 2023 \<and> month r = 3] = [] \<and>
   month_name 3 = Inr ''March'' \<and>
   daily_revenue 2023 (filtered_df ex_df [''Drinks''] [''Tuesday'']) (Some ''March'')
     = Inr (Info ''No data available for this month.'') \<and>
   daily_revenue 2023 (filtered_df ex_df [''Drinks''] [''Tuesday'']) (Some ''February'')
     = Inr (LineChart [((2023, 2, 7), 5)])"
proof -
  let ?fv = "filtered_df ex_df [''Drinks''] [''Tuesday'']"
  have fv: "?fv = [\<lparr>order_id = 3, cust_id = ''B'', category = ''Drinks'', item = ''Tea'',
      quantity = 1, order_total = 5, day = (2023, 2, 7), weekday = ''Tuesday'', month = 2,
      year = 2023\<rparr>]"
    by (simp add: filtered_df_def isin_def ex_df_def)
  have a: "df_year 2022 ?fv = []"
    unfolding fv by (simp add: df_year_def)
  have b: "(3::nat) \<in> {1..12} \<and> [r \<leftarrow> ?fv. year r = 2023 \<and> month r = 3] = []"
    unfolding fv by simp
  have n: "month_name 3 = Inr ''March''"
    by (simp add: month_name_def MONTH_MAP_def)
  have c: "daily_revenue 2023 ?fv (Some ''February'') = Inr (LineChart [((2023, 2, 7), 5)])"
    unfolding fv
    by (simp add: daily_revenue_def plot_df_def month_num_def MONTH_MAP_def iloc0_def df_year_def
        daily_rev_def groupby_agg_def series_sum_def)
  from daily_revenue_reports_no_data [where y = 2022 and fv = ?fv and choice = "''January''"] a
  have 1: "daily_revenue 2022 ?fv (Some ''All Months'')
             = Inr (Info ''No data available for this month.'') \<and>
           daily_revenue_panel 2022 ?fv ''January''
             = Inr (Info ''No data available for this month.'')"
    by blast
  from daily_revenue_reports_no_data [where y = 2023 and fv = ?fv and m = 3] b n
  have 2: "daily_revenue 2023 ?fv (Some ''March'')
             = Inr (Info ''No data available for this month.'')"
    by auto
  from a b n c 1 2 show ?thesis by blast
qed

lemma set_months: "set (months y fv) = month ` set (df_year y fv)"
  by (simp add: months_def)

lemma selectbox_in_options:
  "options \<noteq> [] \<Longrightarrow> \<exists>s. selectbox options choice = Some s \<and> s \<in> set options"
  by (cases options) (auto simp: selectbox_def)

lemma month_options_valid:
  assumes "month ` set fv \<subseteq> {1..12}"
  shows "\<exists>names. month_options y fv = Inr (''All Months'' # names) \<and>
           map Inr names = map month_name (months y fv)"
proof -
  have "\<exists>n. month_name m = Inr n" if "m \<in> set (months y fv)" for m
  proof -
    from that assms have "m \<in> {1..12}" by (auto simp: set_months df_year_def)
    then show ?thesis using month_round_trip by blast
  qed
  then obtain names where n: "map_err month_name (months y fv) = Inr names"
    using map_err_total [of "months y fv" month_name] by blast
  then have "map Inr names = map month_name (months y fv)"
    by (simp add: map_err_Inr_conv)
  with n show ?thesis by (simp add: month_options_def)
qed

lemma offered_month_has_rows:
  assumes names: "map Inr names = map month_name (months y fv)" and s: "s \<in> set names"
  shows "\<exists>p. plot_df y fv (Some s) = Inr p \<and> p \<noteq> [] \<and> s \<noteq> ''All Months''"
proof -
  from s have "Inr s \<in> set (map month_name (months y fv))"
    unfolding names [symmetric] by simp
  then obtain m where m: "m \<in> set (months y fv)" "month_name m = Inr s"
    by auto
  from m(2) have r: "m \<in> {1..12}" by (rule month_name_Inr_range)
  from month_round_trip [OF r] m(2)
  have k: "month_num (Some s) = Inr m" "s \<noteq> ''All Months''" by auto
  then have p: "plot_df y fv (Some s) = Inr [r \<leftarrow> df_year y fv. month r = m]"
    by (simp add: plot_df_def)
  from m(1) have "m \<in> month ` set (df_year y fv)" by (simp add: set_months)
  then have "[r \<leftarrow> df_year y fv. month r = m] \<noteq> []"
    by (auto simp: filter_empty_conv)
  with p k show ?thesis by blast
qed

text \<open>
  C8. On a frame whose month column holds month numbers (1..12, as \<^verbatim>\<open>.dt.month\<close>
  gives them), the options of a year's selectbox are "All Months" followed by the
  names of the months present in that year's rows of the view, in ascending month
  number. Whatever the user's choice, the selectbox returns one of these options,
  the look-up of its month number succeeds, and an offered month has rows.
\<close>

theorem month_options_from_data:
  "month ` set fv \<subseteq> {1..12} \<longrightarrow>
     (\<exists>names. month_options y fv = Inr (''All Months'' # names) \<and>
        map Inr names = map month_name (sorted_list_of_set (month ` set (df_year y fv))) \<and>
        (\<forall>choice. \<exists>s p. selectbox (''All Months'' # names) choice = Some s \<and>
            s \<in> set (''All Months'' # names) \<and> plot_df y fv (Some s) = Inr p \<and>
            (s = ''All Months'' \<or> p \<noteq> [])))"
proof
  assume "month ` set fv \<subseteq> {1..12}"
  from month_options_valid [OF this, of y] obtain names where
    n: "month_options y fv = Inr (''All Months'' # names)"
       "map Inr names = map month_name (months y fv)"
    by blast
  have "\<exists>s p. selectbox (''All Months'' # names) choice = Some s \<and>
            s \<in> set (''All Months'' # names) \<and> plot_df y fv (Some s) = Inr p \<and>
            (s = ''All Months'' \<or> p \<noteq> [])" for choice
  proof -
    obtain s where s: "selectbox (''All Months'' # names) choice = Some s"
      "s \<in> set (''All Months'' # names)"
      using selectbox_in_options [of "''All Months'' # names" choice] by blast
    show ?thesis
    proof (cases "s = ''All Months''")
      case True
      then have "plot_df y fv (Some s) = Inr (df_year y fv)" by (simp add: plot_df_def)
      with s True show ?thesis by blast
    next
      case False
      with s(2) have "s \<in> set names" by simp
      from offered_month_has_rows [OF n(2) this] s show ?thesis by blast
    qed
  qed
  with n show "\<exists>names. month_options y fv = Inr (''All Months'' # names) \<and>
        map Inr names = map month_name (sorted_list_of_set (month ` set (df_year y fv))) \<and>
        (\<forall>choice. \<exists>s p. selectbox (''All Months'' # names) choice = Some s \<and>
            s \<in> set (''All Months'' # names) \<and> plot_df y fv (Some s) = Inr p \<and>
            (s = ''All Months'' \<or> p \<noteq> []))"
    unfolding months_sorted_list_of_set by blast
qed

theorem month_options_from_data_witness:
  "month ` set ex_df \<subseteq> {1..12} \<and>
   month_options 2022 ex_df = Inr [''All Months'', ''January''] \<and>
   sorted_list_of_set (month ` set (df_year 2022 ex_df)) = [1] \<and>
   selectbox [''All Months'', ''January''] ''March'' = Some ''All Months'' \<and>
   selectbox [''All Months'', ''January''] ''January'' = Some ''January'' \<and>
   (\<exists>p. plot_df 2022 ex_df (Some ''January'') = Inr p \<and> p \<noteq> [])"
proof -
  have h: "month ` set ex_df \<subseteq> {1..12}"
    by (simp add: ex_df_def)
  have o: "month_options 2022 ex_df = Inr [''All Months'', ''January'']"
    by (simp add: month_options_def months_def df_year_def unique_def month_name_def
        MONTH_MAP_def ex_df_def)
  have m: "sorted_list_of_set (month ` set (df_year 2022 ex_df)) = [1]"
    by (simp add: df_year_def ex_df_def)
  have s1: "selectbox [''All Months'', ''January''] ''March'' = Some ''All Months''"
    by (simp add: selectbox_def)
  have s2: "selectbox [''All Months'', ''January''] ''January'' = Some ''January''"
    by (simp add: selectbox_def)
  from month_options_from_data [of ex_df 2022] h o
  have "\<forall>choice. \<exists>s p. selectbox [''All Months'', ''January''] choice = Some s \<and>
            s \<in> set [''All Months'', ''January''] \<and> plot_df 2022 ex_df (Some s) = Inr p \<and>
            (s = ''All Months'' \<or> p \<noteq> [])"
    by auto
  then obtain s p where "selectbox [''All Months'', ''January''] ''January'' = Some s"
    "plot_df 2022 ex_df (Some s) = Inr p" "s = ''All Months'' \<or> p \<noteq> []"
    by blast
  with s2 have "\<exists>p. plot_df 2022 ex_df (Some ''January'') = Inr p \<and> p \<noteq> []"
    by auto
  with h o m s1 s2 show ?thesis by blast
qed

lemma daily_revenue_panel_total:
  assumes "month ` set fv \<subseteq> {1..12}"
  shows "\<exists>p. daily_revenue_panel y fv choice = Inr p"
proof -
  from month_options_valid [OF assms, of y] obtain names where
    n: "month_options y fv = Inr (''All Months'' # names)"
       "map Inr names = map month_name (months y fv)"
    by blast
  obtain s where s: "selectbox (''All Months'' # names) choice = Some s"
      "s \<in> set (''All Months'' # names)"
    using selectbox_in_options [of "''All Months'' # names" choice] by blast
  have "\<exists>p. plot_df y fv (Some s) = Inr p"
  proof (cases "s = ''All Months''")
    case True
    then show ?thesis by (simp add: plot_df_def)
  next
    case False
    with s(2) have "s \<in> set names" by simp
    from offered_month_has_rows [OF n(2) this] show ?thesis by blast
  qed
  then obtain p where "plot_df y fv (Some s) = Inr p" by blast
  from daily_revenue_of_plot_df [OF this] n(1) s(1) show ?thesis
    by (simp add: daily_revenue_panel_def)
qed

lemma df_year_idem: "df_year y [r \<leftarrow> fv. year r = y] = df_year y fv"
  by (simp add: df_year_def)

lemma month_options_year_only: "month_options y [r \<leftarrow> fv. year r = y] = month_options y fv"
  by (simp add: month_options_def months_def df_year_idem)

lemma plot_df_year_only: "plot_df y [r \<leftarrow> fv. year r = y] selected = plot_df y fv selected"
  by (simp add: plot_df_def df_year_idem cong: sum.case_cong)

lemma daily_revenue_year_only:
  "daily_revenue y [r \<leftarrow> fv. year r = y] selected = daily_revenue y fv selected"
  by (simp add: daily_revenue_def plot_df_year_only)

lemma daily_revenue_panel_year_only:
  "daily_revenue_panel y [r \<leftarrow> fv. year r = y] choice = daily_revenue_panel y fv choice"
  by (simp add: daily_revenue_panel_def month_options_year_only daily_revenue_year_only
      cong: sum.case_cong)

section \<open>The page as a whole\<close>

lemma iloc0_Inl_iff: "iloc0 t = Inl e \<longleftrightarrow> t = [] \<and> e = IndexError"
  by (cases t) (auto simp: iloc0_def)

lemma customer_revenue_empty_iff:
  assumes "argsort_ok kind"
  shows "customer_revenue kind fv = [] \<longleftrightarrow> fv = []"
proof -
  have "length (customer_revenue kind fv)
      = min 10 (length (groupby_agg cust_id (\<lambda>g. series_sum (map order_total g)) fv))"
    by (simp add: customer_revenue_def head_def length_sort_values_desc [OF assms])
  then have "customer_revenue kind fv = [] \<longleftrightarrow>
      groupby_agg cust_id (\<lambda>g. series_sum (map order_total g)) fv = []"
    by (metis length_0_conv min_0R min_def zero_neq_numeral)
  then show ?thesis by (simp add: groupby_agg_empty_iff)
qed

lemma customer_loyalty_empty_iff:
  assumes "argsort_ok kind"
  shows "customer_loyalty kind fv = [] \<longleftrightarrow> fv = []"
proof -
  have "length (customer_loyalty kind fv)
      = min 10 (length (groupby_agg cust_id (\<lambda>g. nunique (map order_id g)) fv))"
    by (simp add: customer_loyalty_def head_def length_sort_values_desc [OF assms])
  then have "customer_loyalty kind fv = [] \<longleftrightarrow>
      groupby_agg cust_id (\<lambda>g. nunique (map order_id g)) fv = []"
    by (metis length_0_conv min_0R min_def zero_neq_numeral)
  then show ?thesis by (simp add: groupby_agg_empty_iff)
qed

lemma app_empty_view:
  assumes "argsort_ok kind"
    and "filtered_df df (multiselect (category_options df) cc) (multiselect (weekday_options df) cw) = []"
  shows "app kind df cc cw c22 c23 = Inl IndexError"
proof -
  have "customer_revenue kind [] = []"
    using customer_revenue_empty_iff [OF assms(1), of "[]"] by simp
  with assms(2) show ?thesis by (simp add: app_def Let_def iloc0_def)
qed

lemma filtered_df_months:
  "month ` set df \<subseteq> {1..12} \<Longrightarrow> month ` set (filtered_df df cs ws) \<subseteq> {1..12}"
  by (auto simp: filtered_df_def)

lemma app_nonempty_view:
  assumes ok: "argsort_ok kind"
    and ne: "filtered_df df (multiselect (category_options df) cc) (multiselect (weekday_options df) cw) \<noteq> []"
    and mo: "month ` set df \<subseteq> {1..12}"
  shows "\<exists>pg. app kind df cc cw c22 c23 = Inr pg"
proof -
  let ?fv = "filtered_df df (multiselect (category_options df) cc) (multiselect (weekday_options df) cw)"
  from ne ok obtain a where a: "iloc0 (customer_revenue kind ?fv) = Inr a"
    by (cases "customer_revenue kind ?fv") (auto simp: iloc0_def customer_revenue_empty_iff)
  from ne ok obtain b where b: "iloc0 (customer_loyalty kind ?fv) = Inr b"
    by (cases "customer_loyalty kind ?fv") (auto simp: iloc0_def customer_loyalty_empty_iff)
  from daily_revenue_panel_total [OF filtered_df_months [OF mo]]
  obtain p q where "daily_revenue_panel 2022 ?fv c22 = Inr p" "daily_revenue_panel 2023 ?fv c23 = Inr q"
    by meson
  with a b show ?thesis by (simp add: app_def Let_def)
qed

lemma app_Inr_panels:
  assumes "app kind df cc cw c22 c23 = Inr pg"
  shows "daily_revenue_panel 2022
           (filtered_df df (multiselect (category_options df) cc) (multiselect (weekday_options df) cw)) c22
           = Inr (out_2022 pg) \<and>
         daily_revenue_panel 2023
           (filtered_df df (multiselect (category_options df) cc) (multiselect (weekday_options df) cw)) c23
           = Inr (out_2023 pg)"
  using assms by (auto simp: app_def Let_def split: sum.splits)

text \<open>
  C9. The page has two daily-revenue panels, for the literals 2022 and 2023. In a
  run that completes, each panel is what the panel's code gives on the rows of the
  view with that year alone: rows of any other year contribute to neither.
\<close>

theorem daily_revenue_fixed_years:
  "app kind df cc cw c22 c23 = Inr pg \<longrightarrow>
     daily_revenue_panel 2022
       [r \<leftarrow> filtered_df df (multiselect (category_options df) cc)
              (multiselect (weekday_options df) cw). year r = 2022] c22 = Inr (out_2022 pg) \<and>
     daily_revenue_panel 2023
       [r \<leftarrow> filtered_df df (multiselect (category_options df) cc)
              (multiselect (weekday_options df) cw). year r = 2023] c23 = Inr (out_2023 pg)"
  unfolding daily_revenue_panel_year_only using app_Inr_panels by blast

theorem daily_revenue_fixed_years_witness:
  "\<exists>pg. app argsort_stable (ex_df @ ex_2024) [''Drinks'', ''Food''] [''Monday'', ''Tuesday'', ''Friday'']
           ''All Months'' ''All Months'' = Inr pg \<and>
         out_2022 pg = LineChart [((2022, 1, 3), 30)] \<and>
         out_2023 pg = LineChart [((2023, 2, 7), 5)] \<and>
         out_total_revenue pg = 95"
proof -
  let ?df = "ex_df @ ex_2024"
  let ?cc = "[''Drinks'', ''Food'']"
  let ?cw = "[''Monday'', ''Tuesday'', ''Friday'']"
  let ?fv = "filtered_df ?df (multiselect (category_options ?df) ?cc)
              (multiselect (weekday_options ?df) ?cw)"
  have fv: "?fv = ?df"
    by (simp add: filtered_df_def isin_def multiselect_def category_options_def
        weekday_options_def unique_def ex_df_def ex_2024_def)
  have ne: "?fv \<noteq> []" unfolding fv by (simp add: ex_df_def)
  have mo: "month ` set ?df \<subseteq> {1..12}" by (simp add: ex_df_def ex_2024_def)
  from app_nonempty_view [OF argsort_stable_ok ne mo]
  obtain pg where pg: "app argsort_stable ?df ?cc ?cw ''All Months'' ''All Months'' = Inr pg"
    by blast
  have p22: "daily_revenue_panel 2022 [r \<leftarrow> ?df. year r = 2022] ''All Months''
      = Inr (LineChart [((2022, 1, 3), 30)])"
    by (simp add: daily_revenue_panel_def month_options_def months_def df_year_def unique_def
        month_name_def MONTH_MAP_def selectbox_def daily_revenue_def plot_df_def daily_rev_def
        groupby_agg_def series_sum_def ex_df_def ex_2024_def)
  have p23: "daily_revenue_panel 2023 [r \<leftarrow> ?df. year r = 2023] ''All Months''
      = Inr (LineChart [((2023, 2, 7), 5)])"
    by (simp add: daily_revenue_panel_def month_options_def months_def df_year_def unique_def
        month_name_def MONTH_MAP_def selectbox_def daily_revenue_def plot_df_def daily_rev_def
        groupby_agg_def series_sum_def ex_df_def ex_2024_def)
  from pg have "out_total_revenue pg = total_revenue ?fv"
    by (auto simp: app_def Let_def split: sum.splits)
  then have tr: "out_total_revenue pg = 95"
    unfolding fv by (simp add: total_revenue_def series_sum_def ex_df_def ex_2024_def)
  from daily_revenue_fixed_years [of argsort_stable ?df ?cc ?cw "''All Months''" "''All Months''" pg] pg
  have "out_2022 pg = LineChart [((2022, 1, 3), 30)] \<and> out_2023 pg = LineChart [((2023, 2, 7), 5)]"
    unfolding fv p22 p23 by simp
  with pg tr show ?thesis by blast
qed

text \<open>
  C2, at an empty category selection on the example frame: the Filtered View is
  empty, the Top Spenders table is empty, and \<^verbatim>\<open>customer_revenue.iloc[0]\<close> raises
  IndexError, which ends the run.
\<close>

theorem app_empty_selection_index_error:
  "app argsort_stable ex_df [] [''Monday'', ''Tuesday''] ''All Months'' ''All Months''
     = Inl IndexError"
proof -
  have "filtered_df ex_df (multiselect (category_options ex_df) [])
          (multiselect (weekday_options ex_df) [''Monday'', ''Tuesday'']) = []"
    by (simp add: multiselect_def filtered_df_def isin_def)
  then show ?thesis by (rule app_empty_view [OF argsort_stable_ok])
qed

text \<open>
  C1, at the same empty selection: total revenue and total items sold are 0, and
  the average order value is the mean of no rows, NaN.
\<close>

theorem kpi_empty_view_nan:
  "total_revenue (filtered_df ex_df [] [''Monday'', ''Tuesday'']) = 0 \<and>
   total_items_sold (filtered_df ex_df [] [''Monday'', ''Tuesday'']) = 0 \<and>
   avg_order_value (filtered_df ex_df [] [''Monday'', ''Tuesday'']) = NaN"
  by (simp add: filtered_df_def isin_def total_revenue_def total_items_sold_def
      avg_order_value_def series_sum_def series_mean_def)

lemma avg_order_value_NaN_iff: "avg_order_value fv = NaN \<longleftrightarrow> fv = []"
  by (simp add: avg_order_value_def series_mean_def)

end
